theory Spec2Isabelle
  imports
    Complex_Main
    "HOL-Library.Char_ord"
    "HOL-Library.List_Lexorder"
    "HOL-Library.Product_Lexorder"
    "HOL-Library.Multiset"
begin

section \<open>The NBA analytics dashboard (app.py): data model\<close>

text \<open>
  The program is one Python script over pandas tables. Every table is modelled
  row-oriented, as a list of records in file order. Only the columns that the
  script names are fields of a record.

  A number of the script is a Python float. It is modelled as an optional
  rational: \<open>None\<close> is NaN, the null marker of pandas, and \<open>Some q\<close> is the
  finite double of value \<open>q\<close>. The infinities are not part of the model.

  The float operations that the script itself performs (the \<open>+\<close> and \<open>/\<close> of lines 47
  and 59) round their exact result with a function \<open>rnd\<close>, a parameter of the
  model; \<open>binary64\<close> below is the rounding of IEEE doubles. The means are
  computed inside pandas; they are modelled as exact means.

  A raw cell, as \<open>read_csv\<close> yields it, is a number (NaN for an empty field)
  or a string.
\<close>

type_synonym num = "rat option"

datatype cell = Num num | Str string

datatype error = ValueError

text \<open>
  Key columns (SEASON, HOME_TEAM_ID, PLAYER_ID, TEAM_ID, SEASON_ID) are
  integers that may be missing, CONFERENCE and PLAYER_NAME are strings that may
  be missing. The columns that the cleaning section rewrites carry the type
  parameter \<open>'c\<close>: \<open>cell\<close> before cleaning, \<open>num\<close> after it. The source column
  MIN is the field \<open>MIN_col\<close>.
\<close>

record 'c game_row =
  SEASON :: "int option"
  HOME_TEAM_ID :: "int option"
  PTS_home :: 'c
  PTS_away :: 'c

record player_key =
  PLAYER_ID :: "int option"

record 'c detail_row = player_key +
  PTS :: 'c
  AST :: 'c
  REB :: 'c
  MIN_col :: 'c

record player_row = player_key +
  PLAYER_NAME :: "string option"

text \<open>
  \<open>leader_row\<close> holds the five columns that the ranking tab selects; a row of
  ranking.csv has CONFERENCE besides them.
\<close>

record leader_row =
  TEAM_ID :: "int option"
  SEASON_ID :: "int option"
  W :: "int option"
  L :: "int option"
  W_PCT :: "rat option"

record ranking_row = leader_row +
  CONFERENCE :: "string option"

text \<open>
  The five tables that \<open>load_data\<close> returns. The script never names a column of
  teams.csv, so its row type is a parameter.
\<close>

record ('c, 't) tables =
  players :: "player_row list"
  teams :: "'t list"
  games :: "'c game_row list"
  game_details :: "'c detail_row list"
  ranking :: "ranking_row list"

section \<open>Python and pandas primitives\<close>

text \<open>
  \<open>a + b\<close> and \<open>a / d\<close> on floats: NaN propagates, and the exact result is rounded.
\<close>

definition fadd :: "(rat \<Rightarrow> rat) \<Rightarrow> num \<Rightarrow> num \<Rightarrow> num" where
  "fadd rnd a b =
     (case a of None \<Rightarrow> None | Some x \<Rightarrow> (case b of None \<Rightarrow> None | Some y \<Rightarrow> Some (rnd (x + y))))"

definition fdiv :: "(rat \<Rightarrow> rat) \<Rightarrow> num \<Rightarrow> rat \<Rightarrow> num" where
  "fdiv rnd a d = (case a of None \<Rightarrow> None | Some x \<Rightarrow> Some (rnd (x / d)))"

text \<open>
  The rounding of IEEE 754 doubles: to the nearest number with a significand of
  53 bits, a tie to the one whose significand is even. The exponent is not
  bounded here, so there is neither overflow nor a subnormal number.
  \<open>bitlen n\<close> is the number of binary digits of a positive \<open>n\<close>, and \<open>ilog2 q\<close> the integer
  \<open>e\<close> with \<open>2 ^ e \<le> q < 2 ^ (e + 1)\<close>, for a positive \<open>q\<close>.
\<close>

function bitlen :: "int \<Rightarrow> nat" where
  "bitlen n = (if n \<le> 0 then 0 else Suc (bitlen (n div 2)))"
  by pat_completeness auto
termination
  by (relation "measure nat") auto

declare bitlen.simps [simp del]

definition pow2 :: "int \<Rightarrow> rat" where
  "pow2 e = (if 0 \<le> e then 2 ^ nat e else 1 / 2 ^ nat (- e))"

definition ilog2 :: "rat \<Rightarrow> int" where
  "ilog2 q =
     (if 1 \<le> q then int (bitlen \<lfloor>q\<rfloor>) - 1
      else - int (bitlen (\<lceil>1 / q\<rceil> - 1)))"

definition round_half_even :: "rat \<Rightarrow> int" where
  "round_half_even x =
     (if x - of_int \<lfloor>x\<rfloor> < 1 / 2 then \<lfloor>x\<rfloor>
      else if 1 / 2 < x - of_int \<lfloor>x\<rfloor> then \<lfloor>x\<rfloor> + 1
      else if even \<lfloor>x\<rfloor> then \<lfloor>x\<rfloor> else \<lfloor>x\<rfloor> + 1)"

definition binary64 :: "rat \<Rightarrow> rat" where
  "binary64 q =
     (if q = 0 then 0
      else of_int (round_half_even (q / pow2 (ilog2 \<bar>q\<bar> - 52))) * pow2 (ilog2 \<bar>q\<bar> - 52))"

text \<open>\<open>str.split(sep)\<close> with a one-character separator: it splits at every occurrence.\<close>

fun str_split :: "char \<Rightarrow> string \<Rightarrow> string list" where
  "str_split sep [] = [[]]"
| "str_split sep (c # cs) =
     (if c = sep then [] # str_split sep cs
      else (case str_split sep cs of [] \<Rightarrow> [[c]] | p # ps \<Rightarrow> (c # p) # ps))"

text \<open>
  \<open>Series.apply(f)\<close>: \<open>f\<close> is called on the elements in order; the first exception
  ends the call.
\<close>

fun series_apply :: "('a \<Rightarrow> error + 'b) \<Rightarrow> 'a list \<Rightarrow> error + 'b list" where
  "series_apply f [] = Inr []"
| "series_apply f (x # xs) =
     (case f x of
        Inl e \<Rightarrow> Inl e
      | Inr y \<Rightarrow> (case series_apply f xs of Inl e \<Rightarrow> Inl e | Inr ys \<Rightarrow> Inr (y # ys)))"

text \<open>\<open>mean\<close> of a column or of a group: NaN cells are skipped; the mean of no cell is NaN.\<close>

definition mean :: "num list \<Rightarrow> num" where
  "mean xs =
     (let vs = List.map_filter (\<lambda>x. x) xs
      in if vs = [] then None else Some (sum_list vs / of_nat (length vs)))"

text \<open>
  \<open>groupby(key)\<close>: rows whose key is NaN belong to no group; the groups come in
  ascending order of the key, each key once.
\<close>

definition group_keys :: "('r \<Rightarrow> 'k::linorder option) \<Rightarrow> 'r list \<Rightarrow> 'k list" where
  "group_keys key rows = sort (remdups (List.map_filter key rows))"

definition group_rows :: "('r \<Rightarrow> 'k option) \<Rightarrow> 'k \<Rightarrow> 'r list \<Rightarrow> 'r list" where
  "group_rows key k rows = filter (\<lambda>r. key r = Some k) rows"

definition groupby_mean ::
  "('r \<Rightarrow> 'k::linorder option) \<Rightarrow> ('r \<Rightarrow> num) \<Rightarrow> 'r list \<Rightarrow> ('k \<times> num) list" where
  "groupby_mean key col rows =
     map (\<lambda>k. (k, mean (map col (group_rows key k rows)))) (group_keys key rows)"

text \<open>\<open>drop_duplicates()\<close> keeps the first occurrence of every row.\<close>

fun drop_duplicates_from :: "'a list \<Rightarrow> 'a list \<Rightarrow> 'a list" where
  "drop_duplicates_from seen [] = []"
| "drop_duplicates_from seen (x # xs) =
     (if x \<in> set seen then drop_duplicates_from seen xs
      else x # drop_duplicates_from (x # seen) xs)"

definition drop_duplicates :: "'a list \<Rightarrow> 'a list" where
  "drop_duplicates xs = drop_duplicates_from [] xs"

text \<open>
  \<open>merge\<close> on one key column. Two NaN keys match each other, as in pandas.
  \<open>merge_inner\<close> is \<open>how="inner"\<close> (the default), \<open>merge_left\<close> is \<open>how="left"\<close>: a left row
  without a match is kept once, with NaN in the columns of the right table.
\<close>

definition merge_inner :: "('l \<Rightarrow> 'k) \<Rightarrow> ('r \<Rightarrow> 'k) \<Rightarrow> 'l list \<Rightarrow> 'r list \<Rightarrow> ('l \<times> 'r) list" where
  "merge_inner lk rk ls rs =
     concat (map (\<lambda>l. map (\<lambda>r. (l, r)) (filter (\<lambda>r. rk r = lk l) rs)) ls)"

definition merge_left ::
  "('l \<Rightarrow> 'k) \<Rightarrow> ('r \<Rightarrow> 'k) \<Rightarrow> 'l list \<Rightarrow> 'r list \<Rightarrow> ('l \<times> 'r option) list" where
  "merge_left lk rk ls rs =
     concat (map (\<lambda>l. case filter (\<lambda>r. rk r = lk l) rs of
                         [] \<Rightarrow> [(l, None)]
                       | m # ms \<Rightarrow> map (\<lambda>r. (l, Some r)) (m # ms)) ls)"

text \<open>
  The key of one column under \<open>sort_values(ascending=False)\<close>: larger values first,
  NaN last.
\<close>

definition desc :: "'a::{uminus, zero} option \<Rightarrow> bool \<times> 'a" where
  "desc v = (case v of None \<Rightarrow> (True, 0) | Some x \<Rightarrow> (False, - x))"

section \<open>Data cleaning (section 3 of the script)\<close>

text \<open>
  The two library parsers are parameters of the cleaning functions:
  \<open>py_float\<close> is the builtin \<open>float\<close> on a string (it raises ValueError or returns
  a float), \<open>to_numeric\<close> is \<open>pd.to_numeric(_, errors='coerce')\<close> on one cell (it
  returns NaN where it cannot parse).

  The script coerces column by column (lines 37, 38 and 41 to 42) and then
  drops rows. A coercion raises nothing and reads one cell, so the model
  coerces row by row. Only \<open>convert_minutes\<close> can raise; the first row on which it
  does ends the script.
\<close>

definition coerce_game :: "(cell \<Rightarrow> num) \<Rightarrow> cell game_row \<Rightarrow> num game_row" where
  "coerce_game to_numeric r =
     \<lparr>SEASON = SEASON r, HOME_TEAM_ID = HOME_TEAM_ID r,
      PTS_home = to_numeric (PTS_home r), PTS_away = to_numeric (PTS_away r)\<rparr>"

definition clean_games :: "(cell \<Rightarrow> num) \<Rightarrow> cell game_row list \<Rightarrow> num game_row list" where
  "clean_games to_numeric gs =
     filter (\<lambda>r. PTS_home r \<noteq> None \<and> PTS_away r \<noteq> None) (map (coerce_game to_numeric) gs)"

definition convert_minutes ::
  "(rat \<Rightarrow> rat) \<Rightarrow> (string \<Rightarrow> error + num) \<Rightarrow> (cell \<Rightarrow> num) \<Rightarrow> cell \<Rightarrow> error + num" where
  "convert_minutes rnd py_float to_numeric x =
     (case x of
        Str s \<Rightarrow>
          if CHR '':'' \<in> set s then
            (case str_split (CHR '':'') s of
               [m, sec] \<Rightarrow>
                 (case py_float m of
                    Inl e \<Rightarrow> Inl e
                  | Inr a \<Rightarrow>
                      (case py_float sec of
                         Inl e \<Rightarrow> Inl e
                       | Inr b \<Rightarrow> Inr (fadd rnd a (fdiv rnd b 60))))
             | _ \<Rightarrow> Inl ValueError)
          else Inr (to_numeric x)
      | Num v \<Rightarrow> Inr (to_numeric x))"

definition clean_detail ::
  "(rat \<Rightarrow> rat) \<Rightarrow> (string \<Rightarrow> error + num) \<Rightarrow> (cell \<Rightarrow> num) \<Rightarrow> cell detail_row
     \<Rightarrow> error + num detail_row" where
  "clean_detail rnd py_float to_numeric r =
     (case convert_minutes rnd py_float to_numeric (MIN_col r) of
        Inl e \<Rightarrow> Inl e
      | Inr v \<Rightarrow>
          Inr \<lparr>PLAYER_ID = PLAYER_ID r, PTS = to_numeric (PTS r), AST = to_numeric (AST r),
               REB = to_numeric (REB r), MIN_col = v\<rparr>)"

definition clean_game_details ::
  "(rat \<Rightarrow> rat) \<Rightarrow> (string \<Rightarrow> error + num) \<Rightarrow> (cell \<Rightarrow> num) \<Rightarrow> cell detail_row list
     \<Rightarrow> error + num detail_row list" where
  "clean_game_details rnd py_float to_numeric ds =
     (case series_apply (clean_detail rnd py_float to_numeric) ds of
        Inl e \<Rightarrow> Inl e
      | Inr rows \<Rightarrow> Inr (filter (\<lambda>r. MIN_col r \<noteq> None) rows))"

definition cleaner ::
  "(rat \<Rightarrow> rat) \<Rightarrow> (string \<Rightarrow> error + num) \<Rightarrow> (cell \<Rightarrow> num) \<Rightarrow> (cell, 't) tables
     \<Rightarrow> error + (num, 't) tables" where
  "cleaner rnd py_float to_numeric t =
     (case clean_game_details rnd py_float to_numeric (game_details t) of
        Inl e \<Rightarrow> Inl e
      | Inr ds \<Rightarrow>
          Inr \<lparr>players = players t, teams = teams t,
               games = clean_games to_numeric (games t),
               game_details = ds, ranking = ranking t\<rparr>)"

section \<open>Feature engineering (section 4 of the script)\<close>

text \<open>The column TOTAL_POINTS that line 59 adds to the cleaned games table.\<close>

definition TOTAL_POINTS :: "(rat \<Rightarrow> rat) \<Rightarrow> num game_row \<Rightarrow> num" where
  "TOTAL_POINTS rnd r = fadd rnd (PTS_home r) (PTS_away r)"

text \<open>Columns of the result: SEASON, TOTAL_POINTS.\<close>

definition season_trend :: "(rat \<Rightarrow> rat) \<Rightarrow> num game_row list \<Rightarrow> (int \<times> num) list" where
  "season_trend rnd gs = groupby_mean SEASON (TOTAL_POINTS rnd) gs"

text \<open>
  The aggregation of lines 66 to 68 has the columns of the game-details table:
  PLAYER_ID is the key of the group, the other four are means.
\<close>

definition player_means :: "num detail_row list \<Rightarrow> num detail_row list" where
  "player_means ds =
     map (\<lambda>k. \<lparr>PLAYER_ID = Some k,
               PTS = mean (map PTS (group_rows PLAYER_ID k ds)),
               AST = mean (map AST (group_rows PLAYER_ID k ds)),
               REB = mean (map REB (group_rows PLAYER_ID k ds)),
               MIN_col = mean (map MIN_col (group_rows PLAYER_ID k ds))\<rparr>)
         (group_keys PLAYER_ID ds)"

definition player_stats ::
  "num detail_row list \<Rightarrow> player_row list \<Rightarrow> (num detail_row \<times> player_row) list" where
  "player_stats ds ps = merge_inner PLAYER_ID PLAYER_ID (player_means ds) ps"

text \<open>Columns of the result: SEASON, PTS_home, PTS_away.\<close>

definition home_away_trend :: "num game_row list \<Rightarrow> (int \<times> num \<times> num) list" where
  "home_away_trend gs =
     map (\<lambda>k. (k, mean (map PTS_home (group_rows SEASON k gs)),
                  mean (map PTS_away (group_rows SEASON k gs))))
         (group_keys SEASON gs)"

text \<open>
  \<open>melt\<close> with the value columns PTS_home and PTS_away: all rows for the first
  value column, then all rows for the second. Columns: SEASON, Location,
  Average Points.
\<close>

definition melt :: "(int \<times> num \<times> num) list \<Rightarrow> (int \<times> string \<times> num) list" where
  "melt t = map (\<lambda>(s, h, a). (s, ''PTS_home'', h)) t @ map (\<lambda>(s, h, a). (s, ''PTS_away'', a)) t"

text \<open>\<open>Series.map(dict)\<close> of lines 91 to 94: a value that is no key of the dict becomes NaN.\<close>

definition location_names :: "(string \<times> string) list" where
  "location_names = [(''PTS_home'', ''Home''), (''PTS_away'', ''Away'')]"

definition home_away_long :: "num game_row list \<Rightarrow> (int \<times> string option \<times> num) list" where
  "home_away_long gs =
     map (\<lambda>(s, v, p). (s, map_of location_names v, p)) (melt (home_away_trend gs))"

text \<open>Columns of \<open>team_conf\<close>: TEAM_ID, CONFERENCE, SEASON_ID.\<close>

definition team_conf :: "ranking_row list \<Rightarrow> (int option \<times> string option \<times> int option) list" where
  "team_conf rk = drop_duplicates (map (\<lambda>r. (TEAM_ID r, CONFERENCE r, SEASON_ID r)) rk)"

definition conf_games ::
  "num game_row list \<Rightarrow> ranking_row list
     \<Rightarrow> (num game_row \<times> (int option \<times> string option \<times> int option) option) list" where
  "conf_games gs rk = merge_left HOME_TEAM_ID fst gs (team_conf rk)"

text \<open>The CONFERENCE column of a row of \<open>conf_games\<close>.\<close>

definition joined_CONFERENCE ::
  "num game_row \<times> (int option \<times> string option \<times> int option) option \<Rightarrow> string option" where
  "joined_CONFERENCE j = (case snd j of None \<Rightarrow> None | Some (t, c, s) \<Rightarrow> c)"

text \<open>The key of a row under \<open>groupby(["SEASON", "CONFERENCE"])\<close>: NaN if either is NaN.\<close>

definition season_conference ::
  "num game_row \<times> (int option \<times> string option \<times> int option) option \<Rightarrow> (int \<times> string) option" where
  "season_conference j =
     (case SEASON (fst j) of
        None \<Rightarrow> None
      | Some s \<Rightarrow> (case joined_CONFERENCE j of None \<Rightarrow> None | Some c \<Rightarrow> Some (s, c)))"

text \<open>Columns of the result: (SEASON, CONFERENCE), PTS_home.\<close>

definition conf_trend :: "num game_row list \<Rightarrow> ranking_row list \<Rightarrow> ((int \<times> string) \<times> num) list" where
  "conf_trend gs rk = groupby_mean season_conference (\<lambda>j. PTS_home (fst j)) (conf_games gs rk)"

section \<open>The tabs (section 5 of the script)\<close>

text \<open>Tab 2, for the season chosen in the select box. Columns: HOME_TEAM_ID, PTS_home.\<close>

definition team_scores :: "int \<Rightarrow> num game_row list \<Rightarrow> (int \<times> num) list" where
  "team_scores season gs =
     groupby_mean HOME_TEAM_ID PTS_home (filter (\<lambda>r. SEASON r = Some season) gs)"

text \<open>
  Tab 6. \<open>sort_values\<close> on two columns is a stable sort on the pair of keys.
\<close>

definition ranking_table :: "ranking_row list \<Rightarrow> leader_row list" where
  "ranking_table rk =
     sort_key (\<lambda>r. (desc (SEASON_ID r), desc (W_PCT r))) (map leader_row.truncate rk)"

text \<open>What the six tabs display.\<close>

record dashboard =
  tab_season_trend :: "(int \<times> num) list"
  tab_team_scores :: "(int \<times> num) list"
  tab_player_stats :: "(num detail_row \<times> player_row) list"
  tab_home_away_long :: "(int \<times> string option \<times> num) list"
  tab_conf_trend :: "((int \<times> string) \<times> num) list"
  tab_ranking_table :: "leader_row list"

text \<open>The aggregator and the presenter, on the tables that the cleaner hands over.\<close>

definition render :: "(rat \<Rightarrow> rat) \<Rightarrow> int \<Rightarrow> (num, 't) tables \<Rightarrow> dashboard" where
  "render rnd season t =
     \<lparr>tab_season_trend = season_trend rnd (games t),
      tab_team_scores = team_scores season (games t),
      tab_player_stats = player_stats (game_details t) (players t),
      tab_home_away_long = home_away_long (games t),
      tab_conf_trend = conf_trend (games t) (ranking t),
      tab_ranking_table = ranking_table (ranking t)\<rparr>"

text \<open>The whole script, from the loaded tables to the tabs.\<close>

definition app ::
  "(rat \<Rightarrow> rat) \<Rightarrow> (string \<Rightarrow> error + num) \<Rightarrow> (cell \<Rightarrow> num) \<Rightarrow> int \<Rightarrow> (cell, 't) tables
     \<Rightarrow> error + dashboard" where
  "app rnd py_float to_numeric season t =
     (case cleaner rnd py_float to_numeric t of
        Inl e \<Rightarrow> Inl e
      | Inr c \<Rightarrow> Inr (render rnd season c))"

section \<open>The parsers on decimal literals\<close>

text \<open>
  The examples need the two library parsers on concrete strings. Both are given
  here on the literals on which the libraries agree: optional white space around
  an optional sign and a decimal number with an optional fraction; the result
  is the double nearest to the number. Every other string is unparseable for
  these definitions.
\<close>

definition is_space :: "char \<Rightarrow> bool" where
  "is_space c = (c \<in> set [CHR '' '', CHR 0x09, CHR 0x0A, CHR 0x0B, CHR 0x0C, CHR 0x0D])"

definition strip :: "string \<Rightarrow> string" where
  "strip s = rev (dropWhile is_space (rev (dropWhile is_space s)))"

definition is_digit :: "char \<Rightarrow> bool" where
  "is_digit c = (c \<in> set ''0123456789'')"

definition digits_val :: "string \<Rightarrow> nat" where
  "digits_val ds = foldl (\<lambda>n c. 10 * n + (of_char c - 48)) 0 ds"

definition unsigned_decimal :: "string \<Rightarrow> rat option" where
  "unsigned_decimal s =
     (case dropWhile is_digit s of
        [] \<Rightarrow> if s = [] then None else Some (of_nat (digits_val s))
      | c # fp \<Rightarrow>
          if c = CHR ''.'' \<and> list_all is_digit fp \<and> (takeWhile is_digit s \<noteq> [] \<or> fp \<noteq> [])
          then Some (of_nat (digits_val (takeWhile is_digit s @ fp)) / 10 ^ length fp)
          else None)"

definition signed_decimal :: "string \<Rightarrow> rat option" where
  "signed_decimal s =
     (case strip s of
        [] \<Rightarrow> None
      | c # r \<Rightarrow>
          if c = CHR ''-'' then map_option uminus (unsigned_decimal r)
          else if c = CHR ''+'' then unsigned_decimal r
          else unsigned_decimal (c # r))"

definition decimal_float :: "string \<Rightarrow> error + num" where
  "decimal_float s =
     (case signed_decimal s of None \<Rightarrow> Inl ValueError | Some q \<Rightarrow> Inr (Some (binary64 q)))"

text \<open>\<open>pd.to_numeric\<close> returns a number as it is.\<close>

definition decimal_to_numeric :: "cell \<Rightarrow> num" where
  "decimal_to_numeric x =
     (case x of Num v \<Rightarrow> v | Str s \<Rightarrow> map_option binary64 (signed_decimal s))"

section \<open>A sample input\<close>

text \<open>
  Five small tables for the concrete instances below. The second game has a
  PTS_home that is no number, the second game-details row a MIN that is no
  number, and the third a PTS that is no number. Player 9 has no game-details
  row, player 8 no row in the players table, and team 2 no row in the ranking
  table. Team 1 has a ranking row for two seasons, and two ranking rows of one
  season tie on W_PCT.
\<close>

definition sample :: "(cell, unit) tables" where
  "sample =
     \<lparr>players =
        [\<lparr>PLAYER_ID = Some 7, PLAYER_NAME = Some ''A''\<rparr>,
         \<lparr>PLAYER_ID = Some 9, PLAYER_NAME = Some ''B''\<rparr>],
      teams = [],
      games =
        [\<lparr>SEASON = Some 2020, HOME_TEAM_ID = Some 1, PTS_home = Str ''110'', PTS_away = Num (Some 105)\<rparr>,
         \<lparr>SEASON = Some 2020, HOME_TEAM_ID = Some 1, PTS_home = Str ''abc'', PTS_away = Num (Some 90)\<rparr>,
         \<lparr>SEASON = Some 2019, HOME_TEAM_ID = Some 2, PTS_home = Str ''100'', PTS_away = Num (Some 96)\<rparr>],
      game_details =
        [\<lparr>PLAYER_ID = Some 7, PTS = Str ''20'', AST = Num (Some 5), REB = Num (Some 3),
          MIN_col = Str ''32:15''\<rparr>,
         \<lparr>PLAYER_ID = Some 7, PTS = Str ''0'', AST = Num (Some 0), REB = Num (Some 0),
          MIN_col = Str ''DNP''\<rparr>,
         \<lparr>PLAYER_ID = Some 8, PTS = Str ''x'', AST = Num (Some 1), REB = Num (Some 2),
          MIN_col = Str ''10''\<rparr>],
      ranking =
        [\<lparr>TEAM_ID = Some 1, SEASON_ID = Some 22019, W = Some 5, L = Some 5, W_PCT = Some (1 / 2),
          CONFERENCE = Some ''East''\<rparr>,
         \<lparr>TEAM_ID = Some 3, SEASON_ID = Some 22020, W = Some 5, L = Some 5, W_PCT = Some (1 / 2),
          CONFERENCE = Some ''West''\<rparr>,
         \<lparr>TEAM_ID = Some 4, SEASON_ID = Some 22020, W = Some 9, L = Some 1, W_PCT = Some (9 / 10),
          CONFERENCE = Some ''West''\<rparr>,
         \<lparr>TEAM_ID = Some 1, SEASON_ID = Some 22020, W = Some 5, L = Some 5, W_PCT = Some (1 / 2),
          CONFERENCE = Some ''East''\<rparr>]\<rparr>"

text \<open>What the cleaner makes of the sample.\<close>

definition sample_cleaned :: "(num, unit) tables" where
  "sample_cleaned =
     \<lparr>players = players sample,
      teams = [],
      games =
        [\<lparr>SEASON = Some 2020, HOME_TEAM_ID = Some 1, PTS_home = Some 110, PTS_away = Some 105\<rparr>,
         \<lparr>SEASON = Some 2019, HOME_TEAM_ID = Some 2, PTS_home = Some 100, PTS_away = Some 96\<rparr>],
      game_details =
        [\<lparr>PLAYER_ID = Some 7, PTS = Some 20, AST = Some 5, REB = Some 3, MIN_col = Some (3225 / 100)\<rparr>,
         \<lparr>PLAYER_ID = Some 8, PTS = None, AST = Some 1, REB = Some 2, MIN_col = Some 10\<rparr>],
      ranking = ranking sample\<rparr>"

section \<open>Strings and the decimal parsers\<close>

lemma str_split_no_sep: "sep \<notin> set s \<Longrightarrow> str_split sep s = [s]"
  by (induction s) auto

lemma str_split_append:
  "sep \<notin> set m \<Longrightarrow> str_split sep (m @ sep # r) = m # str_split sep r"
  by (induction m) auto

lemma str_split_two:
  "sep \<notin> set m \<Longrightarrow> sep \<notin> set r \<Longrightarrow> str_split sep (m @ sep # r) = [m, r]"
  by (simp add: str_split_append str_split_no_sep)

lemma length_str_split: "length (str_split sep s) = Suc (length (filter (\<lambda>c. c = sep) s))"
  by (induction s) (auto split: list.splits)

lemma takeWhile_first: "x \<notin> set p \<Longrightarrow> takeWhile (\<lambda>c. c \<noteq> x) (p @ x # r) = p"
  by (induction p) auto

lemma dropWhile_first: "x \<notin> set p \<Longrightarrow> dropWhile (\<lambda>c. c \<noteq> x) (p @ x # r) = x # r"
  by (induction p) auto

lemma in_set_dropWhile: "x \<in> set xs \<Longrightarrow> \<not> P x \<Longrightarrow> x \<in> set (dropWhile P xs)"
  by (induction xs) auto

lemma colon_in_strip: "CHR '':'' \<in> set t \<Longrightarrow> CHR '':'' \<in> set (strip t)"
  unfolding strip_def
  by (simp add: in_set_dropWhile is_space_def)

lemma unsigned_decimal_colon: "CHR '':'' \<in> set u \<Longrightarrow> unsigned_decimal u = None"
proof -
  assume c: "CHR '':'' \<in> set u"
  have nd: "\<not> is_digit (CHR '':'')" by (simp add: is_digit_def)
  from c nd have d: "CHR '':'' \<in> set (dropWhile is_digit u)" by (rule in_set_dropWhile)
  then obtain x fp where e: "dropWhile is_digit u = x # fp" by (cases "dropWhile is_digit u") auto
  with d have "x = CHR '':'' \<or> CHR '':'' \<in> set fp" by auto
  then have "\<not> (x = CHR ''.'' \<and> list_all is_digit fp)"
    using nd by (auto simp: list_all_iff)
  with e show ?thesis by (auto simp: unsigned_decimal_def)
qed

lemma signed_decimal_colon: "CHR '':'' \<in> set t \<Longrightarrow> signed_decimal t = None"
proof -
  assume "CHR '':'' \<in> set t"
  then have c: "CHR '':'' \<in> set (strip t)" by (rule colon_in_strip)
  then obtain x r where e: "strip t = x # r" by (cases "strip t") auto
  show ?thesis
  proof (cases "x = CHR ''-'' \<or> x = CHR ''+''")
    case True
    with c e have "CHR '':'' \<in> set r" by auto
    then have "unsigned_decimal r = None" by (rule unsigned_decimal_colon)
    with True e show ?thesis by (auto simp: signed_decimal_def)
  next
    case False
    from c e have "unsigned_decimal (x # r) = None" by (simp add: unsigned_decimal_colon)
    with False e show ?thesis by (simp add: signed_decimal_def)
  qed
qed

text \<open>Like the builtin \<open>float\<close>, the decimal parser accepts no string that holds a colon.\<close>

lemma decimal_float_colon: "CHR '':'' \<in> set t \<Longrightarrow> decimal_float t = Inl ValueError"
  by (simp add: decimal_float_def signed_decimal_colon)

text \<open>The rounding on some well-known doubles, and on two ties.\<close>

lemma binary64_doubles:
  "binary64 (1 / 10) = 3602879701896397 / 2 ^ 55"
  "binary64 (1 / 3) = 6004799503160661 / 2 ^ 54"
  "binary64 (515 / 100) = 2899192260119757 / 2 ^ 49"
  "binary64 (- (1 / 10)) = - (3602879701896397 / 2 ^ 55)"
  "binary64 (2 ^ 53 + 1) = 2 ^ 53"
  "binary64 (2 ^ 53 + 3) = 2 ^ 53 + 4"
  by code_simp+

section \<open>The duration parser\<close>

lemma convert_minutes_first_colon:
  assumes colon: "CHR '':'' \<in> set s"
    and m: "py_float (takeWhile (\<lambda>c. c \<noteq> CHR '':'') s) = Inr a"
    and sec: "py_float (tl (dropWhile (\<lambda>c. c \<noteq> CHR '':'') s)) = Inr b"
    and rej: "\<forall>t. CHR '':'' \<in> set t \<longrightarrow> py_float t = Inl ValueError"
  shows "convert_minutes rnd py_float to_numeric (Str s) = Inr (fadd rnd a (fdiv rnd b 60))"
proof -
  from colon obtain p r where s: "s = p @ CHR '':'' # r" and p: "CHR '':'' \<notin> set p"
    by (auto dest: split_list_first)
  from p have tw: "takeWhile (\<lambda>c. c \<noteq> CHR '':'') s = p"
    unfolding s by (rule takeWhile_first)
  from p have dw: "tl (dropWhile (\<lambda>c. c \<noteq> CHR '':'') s) = r"
    unfolding s by (simp add: dropWhile_first)
  from sec dw rej have r: "CHR '':'' \<notin> set r" by auto
  from p r have "str_split (CHR '':'') s = [p, r]" unfolding s by (rule str_split_two)
  with colon m sec tw dw show ?thesis by (simp add: convert_minutes_def)
qed

text \<open>
  C1. A MIN cell that is a string with a colon is cut at its first colon; when
  the part before it parses to the number \<open>x\<close> and the part after it to the
  number \<open>y\<close>, \<open>convert_minutes\<close> returns the float sum of \<open>x\<close> and of the float
  quotient of \<open>y\<close> by 60 (the builtin \<open>float\<close> accepts no string with a colon,
  which is the last premise). In IEEE double arithmetic, "12:30" gives 12.5,
  "5:9" gives the double of the literal 5.15 and not that of 5.09, and "0:00"
  gives 0, and a row with that MIN survives the cleaning.
\<close>

theorem convert_minutes_duration:
  "(\<forall>s x y.
      CHR '':'' \<in> set s \<and>
      py_float (takeWhile (\<lambda>c. c \<noteq> CHR '':'') s) = Inr (Some x) \<and>
      py_float (tl (dropWhile (\<lambda>c. c \<noteq> CHR '':'') s)) = Inr (Some y) \<and>
      (\<forall>t. CHR '':'' \<in> set t \<longrightarrow> py_float t = Inl ValueError)
      \<longrightarrow> convert_minutes rnd py_float to_numeric (Str s) = Inr (Some (rnd (x + rnd (y / 60)))))
   \<and> convert_minutes binary64 decimal_float decimal_to_numeric (Str ''12:30'') = Inr (Some (125 / 10))
   \<and> convert_minutes binary64 decimal_float decimal_to_numeric (Str ''5:9'')
       = Inr (Some (binary64 (515 / 100)))
   \<and> convert_minutes binary64 decimal_float decimal_to_numeric (Str ''5:9'')
       \<noteq> Inr (Some (binary64 (509 / 100)))
   \<and> convert_minutes binary64 decimal_float decimal_to_numeric (Str ''0:00'') = Inr (Some 0)
   \<and> clean_game_details binary64 decimal_float decimal_to_numeric
        [\<lparr>PLAYER_ID = Some 1, PTS = Num (Some 2), AST = Num (Some 3), REB = Num (Some 4),
          MIN_col = Str ''0:00''\<rparr>]
      = Inr [\<lparr>PLAYER_ID = Some 1, PTS = Some 2, AST = Some 3, REB = Some 4, MIN_col = Some 0\<rparr>]"
proof (intro conjI allI impI)
  fix s x y
  assume h: "CHR '':'' \<in> set s \<and>
      py_float (takeWhile (\<lambda>c. c \<noteq> CHR '':'') s) = Inr (Some x) \<and>
      py_float (tl (dropWhile (\<lambda>c. c \<noteq> CHR '':'') s)) = Inr (Some y) \<and>
      (\<forall>t. CHR '':'' \<in> set t \<longrightarrow> py_float t = Inl ValueError)"
  then have "convert_minutes rnd py_float to_numeric (Str s)
      = Inr (fadd rnd (Some x) (fdiv rnd (Some y) 60))"
    by (intro convert_minutes_first_colon) simp_all
  then show "convert_minutes rnd py_float to_numeric (Str s) = Inr (Some (rnd (x + rnd (y / 60))))"
    by (simp add: fadd_def fdiv_def)
next
  show "convert_minutes binary64 decimal_float decimal_to_numeric (Str ''12:30'') = Inr (Some (125 / 10))"
    by code_simp
next
  show "convert_minutes binary64 decimal_float decimal_to_numeric (Str ''5:9'')
       = Inr (Some (binary64 (515 / 100)))"
    by code_simp
next
  show "convert_minutes binary64 decimal_float decimal_to_numeric (Str ''5:9'')
       \<noteq> Inr (Some (binary64 (509 / 100)))"
    by code_simp
next
  show "convert_minutes binary64 decimal_float decimal_to_numeric (Str ''0:00'') = Inr (Some 0)"
    by code_simp
next
  show "clean_game_details binary64 decimal_float decimal_to_numeric
        [\<lparr>PLAYER_ID = Some 1, PTS = Num (Some 2), AST = Num (Some 3), REB = Num (Some 4),
          MIN_col = Str ''0:00''\<rparr>]
      = Inr [\<lparr>PLAYER_ID = Some 1, PTS = Some 2, AST = Some 3, REB = Some 4, MIN_col = Some 0\<rparr>]"
    by code_simp
qed

text \<open>The scenario MIN = "32:15" of the specification: the cleaned value is 32.25.\<close>

theorem convert_minutes_duration_witness:
  "CHR '':'' \<in> set ''32:15''
   \<and> decimal_float (takeWhile (\<lambda>c. c \<noteq> CHR '':'') ''32:15'') = Inr (Some 32)
   \<and> decimal_float (tl (dropWhile (\<lambda>c. c \<noteq> CHR '':'') ''32:15'')) = Inr (Some 15)
   \<and> convert_minutes binary64 decimal_float decimal_to_numeric (Str ''32:15'') = Inr (Some (3225 / 100))"
proof -
  have c: "CHR '':'' \<in> set ''32:15''" by simp
  have m: "decimal_float (takeWhile (\<lambda>c. c \<noteq> CHR '':'') ''32:15'') = Inr (Some 32)"
    by code_simp
  have sec: "decimal_float (tl (dropWhile (\<lambda>c. c \<noteq> CHR '':'') ''32:15'')) = Inr (Some 15)"
    by code_simp
  have v: "binary64 (32 + binary64 (15 / 60)) = 3225 / 100"
    by code_simp
  have rej: "\<forall>t. CHR '':'' \<in> set t \<longrightarrow> decimal_float t = Inl ValueError"
    by (simp add: decimal_float_colon)
  have "\<forall>s x y.
      CHR '':'' \<in> set s \<and>
      decimal_float (takeWhile (\<lambda>c. c \<noteq> CHR '':'') s) = Inr (Some x) \<and>
      decimal_float (tl (dropWhile (\<lambda>c. c \<noteq> CHR '':'') s)) = Inr (Some y) \<and>
      (\<forall>t. CHR '':'' \<in> set t \<longrightarrow> decimal_float t = Inl ValueError)
      \<longrightarrow> convert_minutes binary64 decimal_float decimal_to_numeric (Str s)
          = Inr (Some (binary64 (x + binary64 (y / 60))))"
    using convert_minutes_duration
      [where rnd = binary64 and py_float = decimal_float and to_numeric = decimal_to_numeric]
    by (rule conjunct1)
  with c m sec rej
  have "convert_minutes binary64 decimal_float decimal_to_numeric (Str ''32:15'')
      = Inr (Some (binary64 (32 + binary64 (15 / 60))))"
    by blast
  with c m sec show ?thesis by (simp only: v simp_thms)
qed

text \<open>
  Where \<open>convert_minutes\<close> returns and where it raises: a cell that is no string
  with a colon is coerced; a string with two or more colons raises; and an
  exception in one row ends the script.
\<close>

lemma convert_minutes_no_colon:
  "\<forall>s. x = Str s \<longrightarrow> CHR '':'' \<notin> set s \<Longrightarrow>
     convert_minutes rnd py_float to_numeric x = Inr (to_numeric x)"
  by (cases x) (simp_all add: convert_minutes_def)

lemma convert_minutes_many_colons:
  assumes "2 \<le> length (filter (\<lambda>c. c = CHR '':'') s)"
  shows "convert_minutes rnd py_float to_numeric (Str s) = Inl ValueError"
proof -
  from assms have "filter (\<lambda>c. c = CHR '':'') s \<noteq> []" by auto
  then have c: "CHR '':'' \<in> set s" by (simp add: filter_empty_conv)
  from assms have l: "3 \<le> length (str_split (CHR '':'') s)"
    by (simp add: length_str_split)
  from l obtain a t1 where 1: "str_split (CHR '':'') s = a # t1"
    by (cases "str_split (CHR '':'') s") simp_all
  with l obtain b t2 where 2: "t1 = b # t2" by (cases t1) simp_all
  with 1 l obtain d t3 where 3: "t2 = d # t3" by (cases t2) simp_all
  from c 1 2 3 show ?thesis by (simp add: convert_minutes_def)
qed

lemma series_apply_raises:
  "x \<in> set xs \<Longrightarrow> f x = Inl e \<Longrightarrow> series_apply f xs = Inl ValueError"
proof (induction xs)
  case Nil
  then show ?case by simp
next
  case (Cons a xs)
  show ?case
  proof (cases "f a")
    case (Inl e')
    then show ?thesis by (cases e') simp
  next
    case (Inr y)
    with Cons.prems have "x \<in> set xs" by auto
    with Cons.IH Cons.prems(2) have "series_apply f xs = Inl ValueError" by simp
    with Inr show ?thesis by simp
  qed
qed

lemma app_raises:
  assumes "r \<in> set (game_details t)"
    and "convert_minutes rnd py_float to_numeric (MIN_col r) = Inl e"
  shows "app rnd py_float to_numeric season t = Inl ValueError"
proof -
  from assms(2) have "clean_detail rnd py_float to_numeric r = Inl e"
    by (simp add: clean_detail_def)
  with assms(1) have "series_apply (clean_detail rnd py_float to_numeric) (game_details t) = Inl ValueError"
    by (rule series_apply_raises)
  then show ?thesis by (simp add: app_def cleaner_def clean_game_details_def)
qed

text \<open>
  C2. A cell that does not parse is to become NaN, and cleaning is never to
  raise. The colon branch of \<open>convert_minutes\<close> does raise: a MIN cell with two
  colons cannot be unpacked into two parts, and a part that \<open>float\<close> rejects is
  not coerced, so ValueError leaves \<open>convert_minutes\<close>, the \<open>apply\<close> call and the
  whole script. The first and the last equation hold for every behaviour of the
  two library parsers.
\<close>

theorem convert_minutes_raises:
  "convert_minutes rnd py_float to_numeric (Str ''1:02:30'') = Inl ValueError
   \<and> convert_minutes binary64 decimal_float decimal_to_numeric (Str ''a:b'') = Inl ValueError
   \<and> convert_minutes binary64 decimal_float decimal_to_numeric (Str ''12:'') = Inl ValueError
   \<and> app rnd py_float to_numeric season
        \<lparr>players = [], teams = [], games = [],
         game_details = [\<lparr>PLAYER_ID = Some 1, PTS = Num (Some 10), AST = Num (Some 2),
                           REB = Num (Some 3), MIN_col = Str ''1:02:30''\<rparr>],
         ranking = []\<rparr>
      = Inl ValueError"
proof (intro conjI)
  show "convert_minutes rnd py_float to_numeric (Str ''1:02:30'') = Inl ValueError"
    by (simp add: convert_minutes_def)
  show "convert_minutes binary64 decimal_float decimal_to_numeric (Str ''a:b'') = Inl ValueError"
    by code_simp
  show "convert_minutes binary64 decimal_float decimal_to_numeric (Str ''12:'') = Inl ValueError"
    by code_simp
  show "app rnd py_float to_numeric season
        \<lparr>players = [], teams = [], games = [],
         game_details = [\<lparr>PLAYER_ID = Some 1, PTS = Num (Some 10), AST = Num (Some 2),
                           REB = Num (Some 3), MIN_col = Str ''1:02:30''\<rparr>],
         ranking = []\<rparr>
      = Inl ValueError"
    by (simp add: app_def cleaner_def clean_game_details_def clean_detail_def convert_minutes_def)
qed

section \<open>The cleaner\<close>






lemma cleaner_sample: "cleaner binary64 decimal_float decimal_to_numeric sample = Inr sample_cleaned"
  by code_simp



text \<open>
  C9. The cleaning section assigns to \<open>games\<close> and \<open>game_details\<close> only: when it
  returns, the players, teams and ranking tables are the loaded ones.
\<close>

theorem cleaner_frame:
  "cleaner rnd py_float to_numeric t = Inr c \<Longrightarrow>
     players c = players t \<and> teams c = teams t \<and> ranking c = ranking t"
  by (auto simp: cleaner_def split: sum.splits)

theorem cleaner_frame_witness:
  "cleaner binary64 decimal_float decimal_to_numeric sample = Inr sample_cleaned
   \<and> players sample_cleaned = players sample
   \<and> teams sample_cleaned = teams sample
   \<and> ranking sample_cleaned = ranking sample"
  using cleaner_frame [OF cleaner_sample] cleaner_sample by simp

section \<open>Grouping and means\<close>

lemma set_map_filter: "set (List.map_filter f xs) = {y. \<exists>x \<in> set xs. f x = Some y}"
  by (induction xs) (auto split: option.splits)

lemma set_group_keys: "set (group_keys key rows) = {k. \<exists>r \<in> set rows. key r = Some k}"
  by (simp add: group_keys_def set_map_filter)

lemma distinct_group_keys: "distinct (group_keys key rows)"
  by (simp add: group_keys_def)


lemma group_rows_nonempty: "k \<in> set (group_keys key rows) \<Longrightarrow> group_rows key k rows \<noteq> []"
  by (auto simp: set_group_keys group_rows_def filter_empty_conv)




lemma groupby_mean_keys: "map fst (groupby_mean key col rows) = group_keys key rows"
  by (simp add: groupby_mean_def o_def)

lemma groupby_mean_value:
  "(k, v) \<in> set (groupby_mean key col rows) \<Longrightarrow>
     k \<in> set (group_keys key rows) \<and> v = mean (map col (group_rows key k rows))"
  by (auto simp: groupby_mean_def)








section \<open>Player stats\<close>

lemma set_merge_inner:
  "set (merge_inner lk rk ls rs) = {(l, r). l \<in> set ls \<and> r \<in> set rs \<and> rk r = lk l}"
  by (auto simp: merge_inner_def)

lemma player_means_keys: "map PLAYER_ID (player_means ds) = map Some (group_keys PLAYER_ID ds)"
  by (simp add: player_means_def o_def)

lemma player_means_row:
  assumes "m \<in> set (player_means ds)"
  shows "\<exists>k. PLAYER_ID m = Some k \<and> filter (\<lambda>d. PLAYER_ID d = Some k) ds \<noteq> [] \<and>
           PTS m = mean (map PTS (filter (\<lambda>d. PLAYER_ID d = Some k) ds)) \<and>
           AST m = mean (map AST (filter (\<lambda>d. PLAYER_ID d = Some k) ds)) \<and>
           REB m = mean (map REB (filter (\<lambda>d. PLAYER_ID d = Some k) ds)) \<and>
           MIN_col m = mean (map MIN_col (filter (\<lambda>d. PLAYER_ID d = Some k) ds))"
proof -
  from assms obtain k where k: "k \<in> set (group_keys PLAYER_ID ds)"
    and m: "m = \<lparr>PLAYER_ID = Some k,
               PTS = mean (map PTS (group_rows PLAYER_ID k ds)),
               AST = mean (map AST (group_rows PLAYER_ID k ds)),
               REB = mean (map REB (group_rows PLAYER_ID k ds)),
               MIN_col = mean (map MIN_col (group_rows PLAYER_ID k ds))\<rparr>"
    by (auto simp: player_means_def)
  from k have "filter (\<lambda>d. PLAYER_ID d = Some k) ds \<noteq> []"
    using group_rows_nonempty [of k PLAYER_ID ds] by (simp add: group_rows_def)
  with m show ?thesis by (simp add: group_rows_def)
qed


text \<open>
  C5. The player stats are the inner join, on PLAYER_ID, of the per-player means
  with the players table. The means table has one row for every PLAYER_ID that
  occurs in the cleaned game-details table, holding the means of PTS, AST, REB
  and MIN over the rows of that player. A player of the players table without a
  cleaned game-details row is in no row of the result, and a PLAYER_ID of the
  game-details table without a row in the players table is in no row of the
  result.
\<close>

theorem player_stats_inner_join:
  "set (player_stats ds ps)
     = {(m, p). m \<in> set (player_means ds) \<and> p \<in> set ps \<and> PLAYER_ID p = PLAYER_ID m}
   \<and> distinct (map PLAYER_ID (player_means ds))
   \<and> (\<forall>m \<in> set (player_means ds).
        \<exists>k. PLAYER_ID m = Some k \<and> filter (\<lambda>d. PLAYER_ID d = Some k) ds \<noteq> [] \<and>
            PTS m = mean (map PTS (filter (\<lambda>d. PLAYER_ID d = Some k) ds)) \<and>
            AST m = mean (map AST (filter (\<lambda>d. PLAYER_ID d = Some k) ds)) \<and>
            REB m = mean (map REB (filter (\<lambda>d. PLAYER_ID d = Some k) ds)) \<and>
            MIN_col m = mean (map MIN_col (filter (\<lambda>d. PLAYER_ID d = Some k) ds)))
   \<and> (\<forall>p \<in> set ps. (\<forall>d \<in> set ds. PLAYER_ID d \<noteq> PLAYER_ID p) \<longrightarrow>
          (\<forall>(m, q) \<in> set (player_stats ds ps). PLAYER_ID q \<noteq> PLAYER_ID p))
   \<and> (\<forall>k. (\<forall>p \<in> set ps. PLAYER_ID p \<noteq> Some k) \<longrightarrow>
          (\<forall>(m, q) \<in> set (player_stats ds ps). PLAYER_ID m \<noteq> Some k))"
proof (intro conjI allI impI ballI)
  show j: "set (player_stats ds ps)
     = {(m, p). m \<in> set (player_means ds) \<and> p \<in> set ps \<and> PLAYER_ID p = PLAYER_ID m}"
    by (simp add: player_stats_def set_merge_inner)
  show "distinct (map PLAYER_ID (player_means ds))"
    by (simp add: player_means_keys distinct_map distinct_group_keys)
  {
    fix m assume "m \<in> set (player_means ds)"
    then show "\<exists>k. PLAYER_ID m = Some k \<and> filter (\<lambda>d. PLAYER_ID d = Some k) ds \<noteq> [] \<and>
            PTS m = mean (map PTS (filter (\<lambda>d. PLAYER_ID d = Some k) ds)) \<and>
            AST m = mean (map AST (filter (\<lambda>d. PLAYER_ID d = Some k) ds)) \<and>
            REB m = mean (map REB (filter (\<lambda>d. PLAYER_ID d = Some k) ds)) \<and>
            MIN_col m = mean (map MIN_col (filter (\<lambda>d. PLAYER_ID d = Some k) ds))"
      by (rule player_means_row)
  }
  {
    fix p x
    assume "p \<in> set ps" and none: "\<forall>d \<in> set ds. PLAYER_ID d \<noteq> PLAYER_ID p" and x: "x \<in> set (player_stats ds ps)"
    obtain m q where mq: "x = (m, q)" by (cases x)
    with x j have m: "m \<in> set (player_means ds)" and e: "PLAYER_ID q = PLAYER_ID m" by auto
    from player_means_row [OF m] obtain k d where "PLAYER_ID m = Some k" "d \<in> set ds" "PLAYER_ID d = Some k"
      by (auto simp: filter_empty_conv)
    with none e have "PLAYER_ID q \<noteq> PLAYER_ID p" by auto
    with mq show "case x of (m, q) \<Rightarrow> PLAYER_ID q \<noteq> PLAYER_ID p" by simp
  }
  {
    fix k x
    assume none: "\<forall>p \<in> set ps. PLAYER_ID p \<noteq> Some k" and x: "x \<in> set (player_stats ds ps)"
    obtain m q where mq: "x = (m, q)" by (cases x)
    with x j have "q \<in> set ps" and "PLAYER_ID q = PLAYER_ID m" by auto
    with none have "PLAYER_ID m \<noteq> Some k" by auto
    with mq show "case x of (m, q) \<Rightarrow> PLAYER_ID m \<noteq> Some k" by simp
  }
qed

lemma player_stats_sample:
  "player_stats (game_details sample_cleaned) (players sample_cleaned)
   = [(\<lparr>PLAYER_ID = Some 7, PTS = Some 20, AST = Some 5, REB = Some 3, MIN_col = Some (3225 / 100)\<rparr>,
       \<lparr>PLAYER_ID = Some 7, PLAYER_NAME = Some ''A''\<rparr>)]"
  by (simp add: sample_cleaned_def sample_def player_stats_def merge_inner_def player_means_def
      group_keys_def group_rows_def mean_def)

text \<open>On the sample: player 9 has no game-details row, player 8 no players row.\<close>

theorem player_stats_inner_join_witness:
  "player_stats (game_details sample_cleaned) (players sample_cleaned)
   = [(\<lparr>PLAYER_ID = Some 7, PTS = Some 20, AST = Some 5, REB = Some 3, MIN_col = Some (3225 / 100)\<rparr>,
       \<lparr>PLAYER_ID = Some 7, PLAYER_NAME = Some ''A''\<rparr>)]
   \<and> \<lparr>PLAYER_ID = Some 9, PLAYER_NAME = Some ''B''\<rparr> \<in> set (players sample_cleaned)
   \<and> list_all (\<lambda>d. PLAYER_ID d \<noteq> Some 9) (game_details sample_cleaned)
   \<and> list_all (\<lambda>(m, q). PLAYER_ID q \<noteq> Some 9)
        (player_stats (game_details sample_cleaned) (players sample_cleaned))
   \<and> list_ex (\<lambda>d. PLAYER_ID d = Some 8) (game_details sample_cleaned)
   \<and> list_all (\<lambda>p. PLAYER_ID p \<noteq> Some 8) (players sample_cleaned)
   \<and> list_all (\<lambda>(m, q). PLAYER_ID m \<noteq> Some 8)
        (player_stats (game_details sample_cleaned) (players sample_cleaned))"
proof -
  note t = player_stats_inner_join [of "game_details sample_cleaned" "players sample_cleaned"]
  have p9: "\<lparr>PLAYER_ID = Some 9, PLAYER_NAME = Some ''B''\<rparr> \<in> set (players sample_cleaned)"
    by (simp add: sample_cleaned_def sample_def)
  have d9: "\<forall>d \<in> set (game_details sample_cleaned).
              PLAYER_ID d \<noteq> PLAYER_ID \<lparr>PLAYER_ID = Some 9, PLAYER_NAME = Some ''B''\<rparr>"
    by (simp add: sample_cleaned_def)
  have d8: "list_ex (\<lambda>d. PLAYER_ID d = Some 8) (game_details sample_cleaned)"
    by (simp add: sample_cleaned_def)
  have p8: "\<forall>p \<in> set (players sample_cleaned). PLAYER_ID p \<noteq> Some 8"
    by (simp add: sample_cleaned_def sample_def)
  from t d9 p9 have o9: "\<forall>(m, q) \<in> set (player_stats (game_details sample_cleaned) (players sample_cleaned)).
           PLAYER_ID q \<noteq> PLAYER_ID \<lparr>PLAYER_ID = Some 9, PLAYER_NAME = Some ''B''\<rparr>"
    by blast
  from t p8 have o8: "\<forall>(m, q) \<in> set (player_stats (game_details sample_cleaned) (players sample_cleaned)).
           PLAYER_ID m \<noteq> Some 8"
    by blast
  from o9 o8 d9 p8 p9 d8 player_stats_sample show ?thesis
    by (simp add: list_all_iff)
qed








section \<open>The conference trend\<close>

lemma set_drop_duplicates_from: "set (drop_duplicates_from seen xs) = set xs - set seen"
  by (induction xs arbitrary: seen) auto

lemma set_drop_duplicates: "set (drop_duplicates xs) = set xs"
  by (simp add: drop_duplicates_def set_drop_duplicates_from)

lemma set_team_conf:
  "set (team_conf rk) = (\<lambda>r. (TEAM_ID r, CONFERENCE r, SEASON_ID r)) ` set rk"
  by (simp add: team_conf_def set_drop_duplicates)

lemma in_left_matches:
  "(l, m) \<in> set (case filter (\<lambda>r. rk r = k) rs of [] \<Rightarrow> [(a, None)]
                  | x # xs \<Rightarrow> map (\<lambda>r. (a, Some r)) (x # xs))
   \<longleftrightarrow> l = a \<and> (case m of None \<Rightarrow> \<forall>r \<in> set rs. rk r \<noteq> k | Some r \<Rightarrow> r \<in> set rs \<and> rk r = k)"
proof (cases "filter (\<lambda>r. rk r = k) rs")
  case Nil
  then have n: "\<forall>r \<in> set rs. rk r \<noteq> k" by (simp add: filter_empty_conv)
  from Nil have "(l, m) \<in> set (case filter (\<lambda>r. rk r = k) rs of [] \<Rightarrow> [(a, None)]
                  | x # xs \<Rightarrow> map (\<lambda>r. (a, Some r)) (x # xs)) \<longleftrightarrow> l = a \<and> m = None"
    by simp
  also from n have "\<dots> \<longleftrightarrow> l = a \<and> (case m of None \<Rightarrow> \<forall>r \<in> set rs. rk r \<noteq> k
                                      | Some r \<Rightarrow> r \<in> set rs \<and> rk r = k)"
    by (cases m) auto
  finally show ?thesis .
next
  case (Cons x xs)
  have s: "set (filter (\<lambda>r. rk r = k) rs) = {r \<in> set rs. rk r = k}" by simp
  from Cons have "x \<in> set (filter (\<lambda>r. rk r = k) rs)" by simp
  then have e: "\<not> (\<forall>r \<in> set rs. rk r \<noteq> k)" by auto
  from Cons have "(l, m) \<in> set (case filter (\<lambda>r. rk r = k) rs of [] \<Rightarrow> [(a, None)]
                  | x # xs \<Rightarrow> map (\<lambda>r. (a, Some r)) (x # xs))
       \<longleftrightarrow> (l, m) \<in> (\<lambda>r. (a, Some r)) ` set (filter (\<lambda>r. rk r = k) rs)"
    by simp
  also have "\<dots> \<longleftrightarrow> l = a \<and> (\<exists>r. m = Some r \<and> r \<in> set rs \<and> rk r = k)"
    unfolding s by blast
  also from e have "\<dots> \<longleftrightarrow> l = a \<and> (case m of None \<Rightarrow> \<forall>r \<in> set rs. rk r \<noteq> k
                                      | Some r \<Rightarrow> r \<in> set rs \<and> rk r = k)"
    by (cases m) simp_all
  finally show ?thesis .
qed

lemma in_merge_left:
  "(l, m) \<in> set (merge_left lk rk ls rs)
   \<longleftrightarrow> l \<in> set ls \<and> (case m of None \<Rightarrow> \<forall>r \<in> set rs. rk r \<noteq> lk l
                          | Some r \<Rightarrow> r \<in> set rs \<and> rk r = lk l)"
proof -
  have "(l, m) \<in> set (merge_left lk rk ls rs)
        \<longleftrightarrow> (\<exists>a \<in> set ls. (l, m) \<in> set (case filter (\<lambda>r. rk r = lk a) rs of [] \<Rightarrow> [(a, None)]
                  | x # xs \<Rightarrow> map (\<lambda>r. (a, Some r)) (x # xs)))"
    by (simp add: merge_left_def)
  also have "\<dots> \<longleftrightarrow> (\<exists>a \<in> set ls. l = a \<and> (case m of None \<Rightarrow> \<forall>r \<in> set rs. rk r \<noteq> lk a
                          | Some r \<Rightarrow> r \<in> set rs \<and> rk r = lk a))"
    by (simp only: in_left_matches)
  also have "\<dots> \<longleftrightarrow> l \<in> set ls \<and> (case m of None \<Rightarrow> \<forall>r \<in> set rs. rk r \<noteq> lk l
                          | Some r \<Rightarrow> r \<in> set rs \<and> rk r = lk l)"
    by blast
  finally show ?thesis .
qed

lemma merge_left_filter:
  "merge_left lk rk (filter (\<lambda>l. \<exists>r \<in> set rs. rk r = lk l) ls) rs
     = filter (\<lambda>j. snd j \<noteq> None) (merge_left lk rk ls rs)"
proof (induction ls)
  case Nil
  show ?case by (simp add: merge_left_def)
next
  case (Cons a ls)
  have step: "merge_left lk rk (a # ls) rs
      = (case filter (\<lambda>r. rk r = lk a) rs of [] \<Rightarrow> [(a, None)]
         | x # xs \<Rightarrow> map (\<lambda>r. (a, Some r)) (x # xs)) @ merge_left lk rk ls rs"
    by (simp add: merge_left_def)
  show ?case
  proof (cases "filter (\<lambda>r. rk r = lk a) rs")
    case Nil
    then have "\<not> (\<exists>r \<in> set rs. rk r = lk a)" by (simp add: filter_empty_conv)
    then have "filter (\<lambda>l. \<exists>r \<in> set rs. rk r = lk l) (a # ls)
               = filter (\<lambda>l. \<exists>r \<in> set rs. rk r = lk l) ls"
      by simp
    moreover from Nil have "filter (\<lambda>j. snd j \<noteq> None) (merge_left lk rk (a # ls) rs)
               = filter (\<lambda>j. snd j \<noteq> None) (merge_left lk rk ls rs)"
      unfolding step by simp
    ultimately show ?thesis using Cons.IH by (simp only:)
  next
    case (Cons x xs)
    then have "x \<in> set (filter (\<lambda>r. rk r = lk a) rs)" by simp
    then have "\<exists>r \<in> set rs. rk r = lk a" by auto
    then have l: "filter (\<lambda>l. \<exists>r \<in> set rs. rk r = lk l) (a # ls)
               = a # filter (\<lambda>l. \<exists>r \<in> set rs. rk r = lk l) ls"
      by simp
    have k: "filter (\<lambda>j. snd j \<noteq> None) (map (\<lambda>r. (a, Some r)) (x # xs))
                   = map (\<lambda>r. (a, Some r)) (x # xs)"
      by (simp add: filter_map o_def del: not_None_eq)
    from Cons have r: "filter (\<lambda>j. snd j \<noteq> None) (merge_left lk rk (a # ls) rs)
               = map (\<lambda>r. (a, Some r)) (x # xs) @ filter (\<lambda>j. snd j \<noteq> None) (merge_left lk rk ls rs)"
      unfolding step by (simp only: list.case filter_append k)
    from Cons have "merge_left lk rk (a # filter (\<lambda>l. \<exists>r \<in> set rs. rk r = lk l) ls) rs
       = map (\<lambda>r. (a, Some r)) (x # xs)
         @ merge_left lk rk (filter (\<lambda>l. \<exists>r \<in> set rs. rk r = lk l) ls) rs"
      by (simp add: merge_left_def)
    with l r Cons.IH show ?thesis by (simp only:)
  qed
qed

lemma map_filter_filter_null:
  "\<forall>r \<in> set rows. \<not> P r \<longrightarrow> key r = None \<Longrightarrow>
     List.map_filter key (filter P rows) = List.map_filter key rows"
  by (induction rows) (auto split: option.splits)

lemma group_rows_filter_null:
  "\<forall>r \<in> set rows. \<not> P r \<longrightarrow> key r = None \<Longrightarrow>
     group_rows key k (filter P rows) = group_rows key k rows"
  unfolding group_rows_def by (induction rows) auto

lemma groupby_mean_filter_null:
  "\<forall>r \<in> set rows. \<not> P r \<longrightarrow> key r = None \<Longrightarrow>
     groupby_mean key col (filter P rows) = groupby_mean key col rows"
  by (simp add: groupby_mean_def group_keys_def map_filter_filter_null group_rows_filter_null)

lemma season_conference_unmatched: "snd j = None \<Longrightarrow> season_conference j = None"
  by (simp add: season_conference_def joined_CONFERENCE_def split: option.splits)

lemma season_conference_Some:
  "(season_conference j = Some (s, c)) = (SEASON (fst j) = Some s \<and> joined_CONFERENCE j = Some c)"
  by (auto simp: season_conference_def split: option.splits)

lemma matched_team_conf:
  "(\<exists>t \<in> set (team_conf rk). fst t = h) = (\<exists>r \<in> set rk. TEAM_ID r = h)"
  by (auto simp: set_team_conf)

lemma conf_games_filter:
  "conf_games (filter (\<lambda>g. \<exists>r \<in> set rk. TEAM_ID r = HOME_TEAM_ID g) gs) rk
     = filter (\<lambda>j. snd j \<noteq> None) (conf_games gs rk)"
  using merge_left_filter [of HOME_TEAM_ID fst "team_conf rk" gs]
  by (simp only: conf_games_def matched_team_conf)

text \<open>
  C7. The joined table \<open>conf_games\<close> pairs every game with every distinct
  (TEAM_ID, CONFERENCE, SEASON_ID) of the ranking table whose TEAM_ID is the
  HOME_TEAM_ID of the game, and with nothing (CONFERENCE is NaN) when there is
  none. The games without such a ranking row have no effect on the conference
  trend: it is the same without them. Every (SEASON, CONFERENCE) key occurs
  once; its group is the joined rows with that SEASON and that CONFERENCE, it is
  not empty, and its value is the mean of PTS_home over the group.
\<close>

theorem conf_trend_resolved:
  "conf_trend (filter (\<lambda>g. \<exists>r \<in> set rk. TEAM_ID r = HOME_TEAM_ID g) gs) rk = conf_trend gs rk
   \<and> (\<forall>g m. (g, m) \<in> set (conf_games gs rk) \<longleftrightarrow>
          g \<in> set gs \<and>
          (case m of
             None \<Rightarrow> \<forall>r \<in> set rk. TEAM_ID r \<noteq> HOME_TEAM_ID g
           | Some t \<Rightarrow> fst t = HOME_TEAM_ID g \<and>
                       (\<exists>r \<in> set rk. t = (TEAM_ID r, CONFERENCE r, SEASON_ID r))))
   \<and> distinct (map fst (conf_trend gs rk))
   \<and> (\<forall>s c v. ((s, c), v) \<in> set (conf_trend gs rk) \<longrightarrow>
        filter (\<lambda>j. SEASON (fst j) = Some s \<and> joined_CONFERENCE j = Some c) (conf_games gs rk) \<noteq> [] \<and>
        v = mean (map (\<lambda>j. PTS_home (fst j))
                   (filter (\<lambda>j. SEASON (fst j) = Some s \<and> joined_CONFERENCE j = Some c)
                      (conf_games gs rk))))"
proof (intro conjI allI impI)
  have "\<forall>j \<in> set (conf_games gs rk). \<not> snd j \<noteq> None \<longrightarrow> season_conference j = None"
    using season_conference_unmatched by blast
  then show "conf_trend (filter (\<lambda>g. \<exists>r \<in> set rk. TEAM_ID r = HOME_TEAM_ID g) gs) rk = conf_trend gs rk"
    unfolding conf_trend_def conf_games_filter by (rule groupby_mean_filter_null)
  {
    fix g :: "num game_row" and m :: "(int option \<times> string option \<times> int option) option"
    have n: "(\<forall>t \<in> set (team_conf rk). fst t \<noteq> HOME_TEAM_ID g)
            = (\<forall>r \<in> set rk. TEAM_ID r \<noteq> HOME_TEAM_ID g)"
      using matched_team_conf [of rk "HOME_TEAM_ID g"] by blast
    have t: "\<And>t. (t \<in> set (team_conf rk))
            = (\<exists>r \<in> set rk. t = (TEAM_ID r, CONFERENCE r, SEASON_ID r))"
      unfolding set_team_conf by blast
    have "(g, m) \<in> set (conf_games gs rk) \<longleftrightarrow>
          g \<in> set gs \<and>
          (case m of
             None \<Rightarrow> \<forall>t \<in> set (team_conf rk). fst t \<noteq> HOME_TEAM_ID g
           | Some t \<Rightarrow> t \<in> set (team_conf rk) \<and> fst t = HOME_TEAM_ID g)"
      unfolding conf_games_def by (rule in_merge_left)
    then show "(g, m) \<in> set (conf_games gs rk) \<longleftrightarrow>
          g \<in> set gs \<and>
          (case m of
             None \<Rightarrow> \<forall>r \<in> set rk. TEAM_ID r \<noteq> HOME_TEAM_ID g
           | Some t \<Rightarrow> fst t = HOME_TEAM_ID g \<and>
                       (\<exists>r \<in> set rk. t = (TEAM_ID r, CONFERENCE r, SEASON_ID r)))"
      unfolding n t by (cases m) (simp_all add: conj_commute)
  }
  show "distinct (map fst (conf_trend gs rk))"
    by (simp add: conf_trend_def groupby_mean_keys distinct_group_keys)
next
  fix s c v assume x: "((s, c), v) \<in> set (conf_trend gs rk)"
  let ?rows = "filter (\<lambda>j. SEASON (fst j) = Some s \<and> joined_CONFERENCE j = Some c) (conf_games gs rk)"
  have g: "group_rows season_conference (s, c) (conf_games gs rk) = ?rows"
    by (simp add: group_rows_def season_conference_Some)
  from x have k: "(s, c) \<in> set (group_keys season_conference (conf_games gs rk))"
    and v: "v = mean (map (\<lambda>j. PTS_home (fst j)) (group_rows season_conference (s, c) (conf_games gs rk)))"
    using groupby_mean_value [of "(s, c)" v season_conference "\<lambda>j. PTS_home (fst j)" "conf_games gs rk"]
    by (simp_all add: conf_trend_def)
  have "?rows \<noteq> []" using group_rows_nonempty [OF k] unfolding g .
  with v show "filter (\<lambda>j. SEASON (fst j) = Some s \<and> joined_CONFERENCE j = Some c) (conf_games gs rk) \<noteq> []"
    and "v = mean (map (\<lambda>j. PTS_home (fst j))
                   (filter (\<lambda>j. SEASON (fst j) = Some s \<and> joined_CONFERENCE j = Some c)
                      (conf_games gs rk)))"
    by (simp_all add: g)
qed

lemma conf_trend_sample:
  "conf_trend (games sample_cleaned) (ranking sample) = [((2020, ''East''), Some 110)]"
  by (simp add: sample_cleaned_def sample_def conf_trend_def groupby_mean_def group_keys_def
      group_rows_def mean_def conf_games_def merge_left_def team_conf_def drop_duplicates_def
      season_conference_def joined_CONFERENCE_def)

text \<open>
  On the sample: the 2019 game of team 2 has no ranking row; the 2020 game of
  team 1 is joined with the two ranking rows of team 1.
\<close>

theorem conf_trend_resolved_witness:
  "conf_trend (games sample_cleaned) (ranking sample) = [((2020, ''East''), Some 110)]
   \<and> list_all (\<lambda>r. TEAM_ID r \<noteq> HOME_TEAM_ID (games sample_cleaned ! 1)) (ranking sample)
   \<and> conf_trend [games sample_cleaned ! 0] (ranking sample)
       = conf_trend (games sample_cleaned) (ranking sample)
   \<and> (games sample_cleaned ! 1, None) \<in> set (conf_games (games sample_cleaned) (ranking sample))
   \<and> Some (110 :: rat)
       = mean (map (\<lambda>j. PTS_home (fst j))
            (filter (\<lambda>j. SEASON (fst j) = Some 2020 \<and> joined_CONFERENCE j = Some ''East'')
               (conf_games (games sample_cleaned) (ranking sample))))"
proof -
  note t = conf_trend_resolved [of "ranking sample" "games sample_cleaned"]
  note t1 = t [THEN conjunct1]
  note t2 = t [THEN conjunct2, THEN conjunct1, rule_format]
  note t4 = t [THEN conjunct2, THEN conjunct2, THEN conjunct2, rule_format]
  have u: "list_all (\<lambda>r. TEAM_ID r \<noteq> HOME_TEAM_ID (games sample_cleaned ! 1)) (ranking sample)"
    by (simp add: sample_cleaned_def sample_def)
  have f: "filter (\<lambda>g. \<exists>r \<in> set (ranking sample). TEAM_ID r = HOME_TEAM_ID g) (games sample_cleaned)
           = [games sample_cleaned ! 0]"
    by (simp add: sample_cleaned_def sample_def)
  from t1 have a: "conf_trend [games sample_cleaned ! 0] (ranking sample)
       = conf_trend (games sample_cleaned) (ranking sample)"
    by (simp only: f)
  have g: "games sample_cleaned ! 1 \<in> set (games sample_cleaned)"
    by (simp add: sample_cleaned_def)
  from u have n: "\<forall>r \<in> set (ranking sample). TEAM_ID r \<noteq> HOME_TEAM_ID (games sample_cleaned ! 1)"
    by (simp only: list_all_iff)
  have b: "(games sample_cleaned ! 1, None) \<in> set (conf_games (games sample_cleaned) (ranking sample))"
    using t2 [of "games sample_cleaned ! 1" None] g n by (simp only: option.case simp_thms)
  have "((2020, ''East''), Some 110) \<in> set (conf_trend (games sample_cleaned) (ranking sample))"
    by (simp add: conf_trend_sample)
  then have c: "Some (110 :: rat)
       = mean (map (\<lambda>j. PTS_home (fst j))
            (filter (\<lambda>j. SEASON (fst j) = Some 2020 \<and> joined_CONFERENCE j = Some ''East'')
               (conf_games (games sample_cleaned) (ranking sample))))"
    by (rule t4 [THEN conjunct2])
  from conf_trend_sample u a b c show ?thesis by (intro conjI)
qed

section \<open>The ranking table\<close>

lemma desc_eq_iff: "(desc v = desc w) = (v = w)" for v w :: "'a::group_add option"
  by (cases v; cases w) (simp_all add: desc_def)

lemma desc_le_iff:
  "(desc v \<le> desc w) =
     (case w of None \<Rightarrow> True | Some y \<Rightarrow> (case v of None \<Rightarrow> False | Some x \<Rightarrow> y \<le> x))"
  for v w :: "'a::linordered_ab_group_add option"
  by (cases v; cases w) (simp_all add: desc_def)

lemma ranking_table_keys_sorted:
  "sorted (map (\<lambda>r. (desc (SEASON_ID r), desc (W_PCT r))) (ranking_table rk))"
  unfolding ranking_table_def by (rule sorted_sort_key)

lemma ranking_table_nth_le:
  assumes "i < j" and "j < length (ranking_table rk)"
  shows "(desc (SEASON_ID (ranking_table rk ! i)), desc (W_PCT (ranking_table rk ! i)))
         \<le> (desc (SEASON_ID (ranking_table rk ! j)), desc (W_PCT (ranking_table rk ! j)))"
proof -
  let ?k = "\<lambda>r. (desc (SEASON_ID r), desc (W_PCT r))"
  from assms have "map ?k (ranking_table rk) ! i \<le> map ?k (ranking_table rk) ! j"
    using ranking_table_keys_sorted [of rk]
    by (simp only: sorted_iff_nth_mono_less length_map)
  with assms show ?thesis by simp
qed

text \<open>
  C8. The ranking table has the rows of the ranking file, cut to the five
  columns. Of two rows, the one with the larger SEASON_ID comes first, and with
  equal SEASON_ID the one with the larger W_PCT; rows without SEASON_ID come
  last. Rows that agree on SEASON_ID and W_PCT keep the order of the file.
\<close>

theorem ranking_table_sorted:
  "mset (ranking_table rk) = mset (map leader_row.truncate rk)
   \<and> (\<forall>i j x y. i < j \<and> j < length (ranking_table rk) \<and>
         SEASON_ID (ranking_table rk ! i) = Some x \<and> SEASON_ID (ranking_table rk ! j) = Some y
         \<longrightarrow> y \<le> x)
   \<and> (\<forall>i j x y. i < j \<and> j < length (ranking_table rk) \<and>
         SEASON_ID (ranking_table rk ! i) = SEASON_ID (ranking_table rk ! j) \<and>
         W_PCT (ranking_table rk ! i) = Some x \<and> W_PCT (ranking_table rk ! j) = Some y
         \<longrightarrow> y \<le> x)
   \<and> (\<forall>i j. i < j \<and> j < length (ranking_table rk) \<and> SEASON_ID (ranking_table rk ! i) = None
         \<longrightarrow> SEASON_ID (ranking_table rk ! j) = None)
   \<and> (\<forall>s w. filter (\<lambda>r. SEASON_ID r = s \<and> W_PCT r = w) (ranking_table rk)
             = filter (\<lambda>r. SEASON_ID r = s \<and> W_PCT r = w) (map leader_row.truncate rk))"
proof (intro conjI allI impI)
  show "mset (ranking_table rk) = mset (map leader_row.truncate rk)"
    by (simp add: ranking_table_def)
next
  fix i j x y
  assume a: "i < j \<and> j < length (ranking_table rk) \<and>
         SEASON_ID (ranking_table rk ! i) = Some x \<and> SEASON_ID (ranking_table rk ! j) = Some y"
  then have "(desc (Some x), desc (W_PCT (ranking_table rk ! i)))
         \<le> (desc (Some y), desc (W_PCT (ranking_table rk ! j)))"
    using ranking_table_nth_le [of i j rk] by simp
  then have "desc (Some x) \<le> desc (Some y)" by (auto simp: less_le)
  then show "y \<le> x" by (simp add: desc_le_iff)
next
  fix i j x y
  assume a: "i < j \<and> j < length (ranking_table rk) \<and>
         SEASON_ID (ranking_table rk ! i) = SEASON_ID (ranking_table rk ! j) \<and>
         W_PCT (ranking_table rk ! i) = Some x \<and> W_PCT (ranking_table rk ! j) = Some y"
  then have "(desc (SEASON_ID (ranking_table rk ! j)), desc (Some x))
         \<le> (desc (SEASON_ID (ranking_table rk ! j)), desc (Some y))"
    using ranking_table_nth_le [of i j rk] by simp
  then have "desc (Some x) \<le> desc (Some y)" by simp
  then show "y \<le> x" by (simp add: desc_le_iff)
next
  fix i j
  assume a: "i < j \<and> j < length (ranking_table rk) \<and> SEASON_ID (ranking_table rk ! i) = None"
  then have "(desc (None :: int option), desc (W_PCT (ranking_table rk ! i)))
         \<le> (desc (SEASON_ID (ranking_table rk ! j)), desc (W_PCT (ranking_table rk ! j)))"
    using ranking_table_nth_le [of i j rk] by simp
  then have "desc (None :: int option) \<le> desc (SEASON_ID (ranking_table rk ! j))"
    by (cases "desc (SEASON_ID (ranking_table rk ! j))") (auto simp: less_le)
  then show "SEASON_ID (ranking_table rk ! j) = None"
    by (simp add: desc_le_iff split: option.splits)
next
  fix s w
  have "\<And>r :: leader_row. ((desc (SEASON_ID r), desc (W_PCT r)) = (desc s, desc w))
          = (SEASON_ID r = s \<and> W_PCT r = w)"
    by (simp add: desc_eq_iff)
  then show "filter (\<lambda>r. SEASON_ID r = s \<and> W_PCT r = w) (ranking_table rk)
             = filter (\<lambda>r. SEASON_ID r = s \<and> W_PCT r = w) (map leader_row.truncate rk)"
    using sort_key_stable [of "\<lambda>r. (desc (SEASON_ID r), desc (W_PCT r))" "(desc s, desc w)"
        "map leader_row.truncate rk"]
    by (simp add: ranking_table_def)
qed

lemma ranking_table_sample:
  "ranking_table (ranking sample)
   = [\<lparr>TEAM_ID = Some 4, SEASON_ID = Some 22020, W = Some 9, L = Some 1, W_PCT = Some (9 / 10)\<rparr>,
      \<lparr>TEAM_ID = Some 3, SEASON_ID = Some 22020, W = Some 5, L = Some 5, W_PCT = Some (1 / 2)\<rparr>,
      \<lparr>TEAM_ID = Some 1, SEASON_ID = Some 22020, W = Some 5, L = Some 5, W_PCT = Some (1 / 2)\<rparr>,
      \<lparr>TEAM_ID = Some 1, SEASON_ID = Some 22019, W = Some 5, L = Some 5, W_PCT = Some (1 / 2)\<rparr>]"
  by (simp add: sample_def ranking_table_def leader_row.defs desc_def)

text \<open>
  On the sample: teams 3 and 1 tie in the season 22020 and stay in file order.
  On three rows of which two have no SEASON_ID: these two come last.
\<close>

theorem ranking_table_sorted_witness:
  "ranking_table (ranking sample)
   = [\<lparr>TEAM_ID = Some 4, SEASON_ID = Some 22020, W = Some 9, L = Some 1, W_PCT = Some (9 / 10)\<rparr>,
      \<lparr>TEAM_ID = Some 3, SEASON_ID = Some 22020, W = Some 5, L = Some 5, W_PCT = Some (1 / 2)\<rparr>,
      \<lparr>TEAM_ID = Some 1, SEASON_ID = Some 22020, W = Some 5, L = Some 5, W_PCT = Some (1 / 2)\<rparr>,
      \<lparr>TEAM_ID = Some 1, SEASON_ID = Some 22019, W = Some 5, L = Some 5, W_PCT = Some (1 / 2)\<rparr>]
   \<and> (22019 :: int) \<le> 22020
   \<and> (1 / 2 :: rat) \<le> 9 / 10
   \<and> filter (\<lambda>r. SEASON_ID r = Some 22020 \<and> W_PCT r = Some (1 / 2))
        (map leader_row.truncate (ranking sample))
      = [\<lparr>TEAM_ID = Some 3, SEASON_ID = Some 22020, W = Some 5, L = Some 5, W_PCT = Some (1 / 2)\<rparr>,
         \<lparr>TEAM_ID = Some 1, SEASON_ID = Some 22020, W = Some 5, L = Some 5, W_PCT = Some (1 / 2)\<rparr>]
   \<and> map TEAM_ID (ranking_table
        [\<lparr>TEAM_ID = Some 1, SEASON_ID = None, W = None, L = None, W_PCT = None, CONFERENCE = None\<rparr>,
         \<lparr>TEAM_ID = Some 2, SEASON_ID = Some 22020, W = None, L = None, W_PCT = None, CONFERENCE = None\<rparr>,
         \<lparr>TEAM_ID = Some 3, SEASON_ID = None, W = None, L = None, W_PCT = None, CONFERENCE = None\<rparr>])
      = [Some 2, Some 1, Some 3]
   \<and> SEASON_ID (ranking_table
        [\<lparr>TEAM_ID = Some 1, SEASON_ID = None, W = None, L = None, W_PCT = None, CONFERENCE = None\<rparr>,
         \<lparr>TEAM_ID = Some 2, SEASON_ID = Some 22020, W = None, L = None, W_PCT = None, CONFERENCE = None\<rparr>,
         \<lparr>TEAM_ID = Some 3, SEASON_ID = None, W = None, L = None, W_PCT = None, CONFERENCE = None\<rparr>] ! 2)
      = None"
proof -
  let ?rk = "[\<lparr>TEAM_ID = Some 1, SEASON_ID = None, W = None, L = None, W_PCT = None, CONFERENCE = None\<rparr>,
         \<lparr>TEAM_ID = Some 2, SEASON_ID = Some 22020, W = None, L = None, W_PCT = None, CONFERENCE = None\<rparr>,
         \<lparr>TEAM_ID = Some 3, SEASON_ID = None, W = None, L = None, W_PCT = None, CONFERENCE = None\<rparr>]"
  note n4 = ranking_table_sorted [of ?rk, THEN conjunct2, THEN conjunct2, THEN conjunct2,
      THEN conjunct1, rule_format]
  have o: "ranking_table ?rk
      = [\<lparr>TEAM_ID = Some 2, SEASON_ID = Some 22020, W = None, L = None, W_PCT = None\<rparr>,
         \<lparr>TEAM_ID = Some 1, SEASON_ID = None, W = None, L = None, W_PCT = None\<rparr>,
         \<lparr>TEAM_ID = Some 3, SEASON_ID = None, W = None, L = None, W_PCT = None\<rparr>]"
    by (simp add: ranking_table_def leader_row.defs desc_def)
  have d: "map TEAM_ID (ranking_table ?rk) = [Some 2, Some 1, Some 3]"
    by (simp add: o)
  have n: "SEASON_ID (ranking_table ?rk ! 2) = None"
    by (rule n4 [of 1 2]) (simp add: o)
  note t = ranking_table_sorted [of "ranking sample"]
  note t2 = t [THEN conjunct2, THEN conjunct1, rule_format]
  note t3 = t [THEN conjunct2, THEN conjunct2, THEN conjunct1, rule_format]
  note t5 = t [THEN conjunct2, THEN conjunct2, THEN conjunct2, THEN conjunct2, rule_format]
  note e = ranking_table_sample
  have a: "(22019 :: int) \<le> 22020"
    by (rule t2 [of 2 3 22020 22019]) (simp add: e)
  have b: "(1 / 2 :: rat) \<le> 9 / 10"
    by (rule t3 [of 0 1 "9 / 10" "1 / 2"]) (simp add: e)
  have "filter (\<lambda>r. SEASON_ID r = Some 22020 \<and> W_PCT r = Some (1 / 2))
        (map leader_row.truncate (ranking sample))
      = filter (\<lambda>r. SEASON_ID r = Some 22020 \<and> W_PCT r = Some (1 / 2))
        (ranking_table (ranking sample))"
    by (rule t5 [symmetric])
  also have "\<dots>
      = [\<lparr>TEAM_ID = Some 3, SEASON_ID = Some 22020, W = Some 5, L = Some 5, W_PCT = Some (1 / 2)\<rparr>,
         \<lparr>TEAM_ID = Some 1, SEASON_ID = Some 22020, W = Some 5, L = Some 5, W_PCT = Some (1 / 2)\<rparr>]"
    by (simp add: e)
  finally have c: "filter (\<lambda>r. SEASON_ID r = Some 22020 \<and> W_PCT r = Some (1 / 2))
        (map leader_row.truncate (ranking sample))
      = [\<lparr>TEAM_ID = Some 3, SEASON_ID = Some 22020, W = Some 5, L = Some 5, W_PCT = Some (1 / 2)\<rparr>,
         \<lparr>TEAM_ID = Some 1, SEASON_ID = Some 22020, W = Some 5, L = Some 5, W_PCT = Some (1 / 2)\<rparr>]" .
  from e a b c d n show ?thesis by (intro conjI)
qed

end
